theory Spec2Isabelle
  imports Complex_Main "HOL-Library.Sublist" "HOL-Library.Multiset"
begin

section \<open>The customer screen of the shop management system\<close>

text \<open>
  A shallow embedding of \<^verbatim>\<open>src/pages/CustomerInformation.js\<close>: the React component that
  lists, searches, creates, edits and deletes the customers of the active shop and shows the
  loans recorded for each of them.

  JavaScript strings are modelled as \<^typ>\<open>string\<close>, one \<^typ>\<open>char\<close> per code unit, so the
  model covers the code units below 256 (ASCII and Latin-1). A field of a document that is
  \<^verbatim>\<open>undefined\<close> or \<^verbatim>\<open>null\<close> is \<^const>\<open>None\<close>. A number is a double: finite, infinite
  or \<^verbatim>\<open>NaN\<close>, added with the rounding of the platform. The active shop identifier comes from
  the authentication context, which is not part of this file: it is an input of every
  handler, and a session may change it.
\<close>

subsection \<open>Strings\<close>

text \<open>\<^verbatim>\<open>String.prototype.toLowerCase\<close> on the code units below 256: A-Z and the Latin-1
  capitals (all of 0xC0-0xDE but the multiplication sign 0xD7) move up by 32.\<close>

definition toLowerChar :: "char \<Rightarrow> char" where
  "toLowerChar c =
     (let n = (of_char c :: nat) in
      if (65 \<le> n \<and> n \<le> 90) \<or> (192 \<le> n \<and> n \<le> 214) \<or> (216 \<le> n \<and> n \<le> 222)
      then char_of (n + 32) else c)"

definition toLowerCase :: "string \<Rightarrow> string" where
  "toLowerCase s = map toLowerChar s"

text \<open>A code unit that has another case: a capital or the small letter of a capital.\<close>

definition isCased :: "char \<Rightarrow> bool" where
  "isCased c =
     (let n = (of_char c :: nat) in
      (65 \<le> n \<and> n \<le> 90) \<or> (192 \<le> n \<and> n \<le> 214) \<or> (216 \<le> n \<and> n \<le> 222) \<or>
      (97 \<le> n \<and> n \<le> 122) \<or> (224 \<le> n \<and> n \<le> 246) \<or> (248 \<le> n \<and> n \<le> 254))"

text \<open>\<^verbatim>\<open>s.includes(t)\<close>: \<open>t\<close> occurs in \<open>s\<close> as a contiguous run.\<close>

definition includes_str :: "string \<Rightarrow> string \<Rightarrow> bool" where
  "includes_str s t = sublist t s"

text \<open>\<^verbatim>\<open>String.prototype.trim\<close>: the white space and line terminators of ECMAScript
  below 256 are TAB, LF, VT, FF, CR, SP and NBSP.\<close>

definition isWhiteSpace :: "char \<Rightarrow> bool" where
  "isWhiteSpace c = ((of_char c :: nat) \<in> {9, 10, 11, 12, 13, 32, 160})"

definition trim :: "string \<Rightarrow> string" where
  "trim s = rev (dropWhile isWhiteSpace (rev (dropWhile isWhiteSpace s)))"

text \<open>\<^verbatim>\<open>x || ''\<close> on a field that holds a string or is missing.\<close>

definition orEmpty :: "string option \<Rightarrow> string" where
  "orEmpty x = (case x of None \<Rightarrow> [] | Some s \<Rightarrow> s)"

subsection \<open>Numbers\<close>

text \<open>A value of the Number type: a finite double, one of the two infinities, or \<^verbatim>\<open>NaN\<close>.
  The two zeros are one value: the only arithmetic of this file adds, starting from \<^verbatim>\<open>+0\<close>,
  amounts that have passed \<^verbatim>\<open>|| 0\<close>, which turns \<^verbatim>\<open>-0\<close> into \<^verbatim>\<open>+0\<close>, and such a sum is never
  \<^verbatim>\<open>-0\<close>.\<close>

datatype number = Finite real | PosInfinity | NegInfinity | NaN

text \<open>\<^verbatim>\<open>x + y\<close> on numbers. The exact sum of two finite doubles is rounded to a double by
  \<open>fl\<close>: to the nearest one, to the even one on a tie, to an infinity beyond the largest.
  The rounding belongs to the platform and is a parameter.\<close>

fun jsAdd :: "(real \<Rightarrow> number) \<Rightarrow> number \<Rightarrow> number \<Rightarrow> number" where
  "jsAdd fl (Finite a) (Finite b) = fl (a + b)"
| "jsAdd fl NaN y = NaN"
| "jsAdd fl x NaN = NaN"
| "jsAdd fl PosInfinity NegInfinity = NaN"
| "jsAdd fl NegInfinity PosInfinity = NaN"
| "jsAdd fl PosInfinity y = PosInfinity"
| "jsAdd fl NegInfinity y = NegInfinity"
| "jsAdd fl (Finite a) y = y"

text \<open>\<^verbatim>\<open>x || 0\<close> on a number: \<^verbatim>\<open>NaN\<close> and zero are falsy.\<close>

definition orZero :: "number \<Rightarrow> number" where
  "orZero x = (if x = NaN \<or> x = Finite 0 then Finite 0 else x)"

subsection \<open>Documents\<close>

type_synonym timestamp = nat

text \<open>The data of a customer document (\<^verbatim>\<open>doc.data()\<close>). The six contact fields may be
  missing in a stored document; the code guards each read of them.\<close>

record customerData =
  shopId :: string
  name :: "string option"
  phone :: "string option"
  email :: "string option"
  address :: "string option"
  city :: "string option"
  notes_field :: "string option"
  createdAt :: timestamp
  updatedAt :: timestamp

text \<open>A customer as held in state: \<^verbatim>\<open>{ id: doc.id, ...doc.data() }\<close>.\<close>

record customer = customerData +
  customerId :: string

definition withId :: "string \<times> customerData \<Rightarrow> customer" where
  "withId doc =
     (case doc of (i, d) \<Rightarrow>
       \<lparr>shopId = shopId d, name = name d, phone = phone d, email = email d,
        address = address d, city = city d, notes_field = notes_field d,
        createdAt = createdAt d, updatedAt = updatedAt d, customerId = i\<rparr>)"

text \<open>A loan record of the \<^verbatim>\<open>customerLoans\<close> collection. The amount is kept as the raw
  stored value of type \<open>'v\<close> (a string or a number); \<^verbatim>\<open>parseFloat\<close> is a parameter of the
  functions that read it.\<close>

record 'v loan =
  loanId :: string
  loanShopId :: string
  customerName :: "string option"
  amount :: 'v
  timestamp :: "timestamp option"
  transactionId :: "string option"
  receiptId :: "string option"
  status :: "string option"

subsection \<open>Derived views\<close>

text \<open>The search filter, lines 188-192:
  \<^verbatim>\<open>customer.name?.toLowerCase().includes(searchTerm.toLowerCase()) ||
  customer.phone?.includes(searchTerm) ||
  customer.email?.toLowerCase().includes(searchTerm.toLowerCase())\<close>.
  An optional chain on a missing field is \<^verbatim>\<open>undefined\<close>, which the filter reads as false.\<close>

definition nameMatches :: "customer \<Rightarrow> string \<Rightarrow> bool" where
  "nameMatches c searchTerm =
     (case name c of None \<Rightarrow> False
      | Some n \<Rightarrow> includes_str (toLowerCase n) (toLowerCase searchTerm))"

definition phoneMatches :: "customer \<Rightarrow> string \<Rightarrow> bool" where
  "phoneMatches c searchTerm =
     (case phone c of None \<Rightarrow> False | Some p \<Rightarrow> includes_str p searchTerm)"

definition emailMatches :: "customer \<Rightarrow> string \<Rightarrow> bool" where
  "emailMatches c searchTerm =
     (case email c of None \<Rightarrow> False
      | Some e \<Rightarrow> includes_str (toLowerCase e) (toLowerCase searchTerm))"

definition matchesSearch :: "customer \<Rightarrow> string \<Rightarrow> bool" where
  "matchesSearch c searchTerm =
     (nameMatches c searchTerm \<or> phoneMatches c searchTerm \<or> emailMatches c searchTerm)"

definition filteredCustomers :: "customer list \<Rightarrow> string \<Rightarrow> customer list" where
  "filteredCustomers customers searchTerm = filter (\<lambda>c. matchesSearch c searchTerm) customers"

text \<open>The header metric \<^verbatim>\<open>customers.length\<close>.\<close>

definition totalCustomers :: "customer list \<Rightarrow> nat" where
  "totalCustomers customers = length customers"

text \<open>The loan badge of a table row, lines 269-279.\<close>

definition custLoans :: "'v loan list \<Rightarrow> customer \<Rightarrow> 'v loan list" where
  "custLoans loans c =
     filter (\<lambda>l. toLowerCase (orEmpty (customerName l)) = toLowerCase (orEmpty (name c))) loans"

text \<open>\<^verbatim>\<open>parseFloat(l.amount) || 0\<close>.\<close>

definition amountOrZero :: "('v \<Rightarrow> number) \<Rightarrow> 'v loan \<Rightarrow> number" where
  "amountOrZero parseFloat l = orZero (parseFloat (amount l))"

definition loanCount :: "'v loan list \<Rightarrow> customer \<Rightarrow> nat" where
  "loanCount loans c = length (custLoans loans c)"

text \<open>\<^verbatim>\<open>custLoans.reduce((s, l) => s + (parseFloat(l.amount) || 0), 0)\<close>: the amounts are
  added from the left, in the order of the list, each sum rounded.\<close>

definition loanTotal ::
  "(real \<Rightarrow> number) \<Rightarrow> ('v \<Rightarrow> number) \<Rightarrow> 'v loan list \<Rightarrow> customer \<Rightarrow> number" where
  "loanTotal fl parseFloat loans c =
     foldl (\<lambda>s l. jsAdd fl s (amountOrZero parseFloat l)) (Finite 0) (custLoans loans c)"

text \<open>The status cell of the loan history, line 458: \<^verbatim>\<open>loan.status || 'outstanding'\<close>.\<close>

definition statusShown :: "'v loan \<Rightarrow> string" where
  "statusShown l =
     (case status l of None \<Rightarrow> ''outstanding''
      | Some s \<Rightarrow> if s = [] then ''outstanding'' else s)"

subsection \<open>Sorting the fetched customers\<close>

text \<open>Lines 50-54: \<^verbatim>\<open>customersData.sort((a, b) => nameA.localeCompare(nameB))\<close> on the
  lowercased names, a missing name read as the empty string. \<^verbatim>\<open>localeCompare\<close> belongs to
  the platform and is a parameter: negative, zero or positive. \<^verbatim>\<open>Array.prototype.sort\<close> is
  stable; for a consistent comparator it returns what the stable insertion sort returns.\<close>

definition compareByName :: "(string \<Rightarrow> string \<Rightarrow> int) \<Rightarrow> customer \<Rightarrow> customer \<Rightarrow> int" where
  "compareByName localeCompare a b =
     localeCompare (toLowerCase (orEmpty (name a))) (toLowerCase (orEmpty (name b)))"

fun insertCustomer ::
  "(string \<Rightarrow> string \<Rightarrow> int) \<Rightarrow> customer \<Rightarrow> customer list \<Rightarrow> customer list" where
  "insertCustomer localeCompare x [] = [x]"
| "insertCustomer localeCompare x (y # ys) =
     (if compareByName localeCompare x y \<le> 0 then x # y # ys
      else y # insertCustomer localeCompare x ys)"

definition sortCustomers :: "(string \<Rightarrow> string \<Rightarrow> int) \<Rightarrow> customer list \<Rightarrow> customer list" where
  "sortCustomers localeCompare xs = foldr (insertCustomer localeCompare) xs []"

subsection \<open>The component's state and the document store\<close>

record formData_t =
  form_name :: string
  form_phone :: string
  form_email :: string
  form_address :: string
  form_city :: string
  form_notes :: string

datatype field = NameField | PhoneField | EmailField | AddressField | CityField | NotesField

text \<open>How an awaited call of the document store ends: it resolves, or it rejects with an
  error whose \<^verbatim>\<open>message\<close> is the string.\<close>

datatype outcome = Resolved | Rejected string

text \<open>The calls issued to the document store, in the order they are made.\<close>

datatype request =
    QueryCustomers string
  | QueryLoans string
  | AddCustomer customerData
  | UpdateCustomer string customerData
  | DeleteCustomer string

text \<open>The pieces of \<^verbatim>\<open>useState\<close> (lines 11-32), then the two collections, the lines written
  by \<^verbatim>\<open>console.error\<close> and the calls issued so far.\<close>

record 'v state =
  customers :: "customer list"
  loading :: bool
  showModal :: bool
  editingCustomer :: "customer option"
  formData :: formData_t
  error :: string
  success :: string
  searchTerm :: string
  showDeleteModal :: bool
  customerToDelete :: "customer option"
  loans :: "'v loan list"
  loansLoading :: bool
  showLoansModal :: bool
  selectedCustomerLoans :: "'v loan list"
  selectedCustomerName :: string
  customersDb :: "(string \<times> customerData) list"
  loansDb :: "'v loan list"
  console :: "string list"
  requests :: "request list"

definition emptyForm :: formData_t where
  "emptyForm =
     \<lparr>form_name = [], form_phone = [], form_email = [], form_address = [],
      form_city = [], form_notes = []\<rparr>"

definition initialState :: "(string \<times> customerData) list \<Rightarrow> 'v loan list \<Rightarrow> 'v state" where
  "initialState cdb ldb =
     \<lparr>customers = [], loading = True, showModal = False, editingCustomer = None,
      formData = emptyForm, error = [], success = [], searchTerm = [],
      showDeleteModal = False, customerToDelete = None, loans = [], loansLoading = False,
      showLoansModal = False, selectedCustomerLoans = [], selectedCustomerName = [],
      customersDb = cdb, loansDb = ldb, console = [], requests = []\<rparr>"

text \<open>\<^verbatim>\<open>!activeShopId\<close>: the identifier is missing or the empty string.\<close>

definition shopMissing :: "string option \<Rightarrow> bool" where
  "shopMissing activeShopId = (case activeShopId of None \<Rightarrow> True | Some sid \<Rightarrow> sid = [])"

text \<open>The danger banner, line 215: rendered while \<^verbatim>\<open>error\<close> is truthy, closed by its
  \<^verbatim>\<open>onClose\<close>.\<close>

definition bannerShown :: "'v state \<Rightarrow> bool" where
  "bannerShown s = (error s \<noteq> [])"

definition dismissError :: "'v state \<Rightarrow> 'v state" where
  "dismissError s = s\<lparr>error := []\<rparr>"


subsection \<open>Reading the collections\<close>

text \<open>\<^verbatim>\<open>fetchCustomers\<close>, lines 34-62.\<close>

definition fetchCustomers ::
  "(string \<Rightarrow> string \<Rightarrow> int) \<Rightarrow> string option \<Rightarrow> outcome \<Rightarrow> 'v state \<Rightarrow> 'v state" where
  "fetchCustomers localeCompare activeShopId res s =
     (case activeShopId of
        None \<Rightarrow> s
      | Some sid \<Rightarrow>
          if sid = [] then s
          else
            (let s1 = s\<lparr>loading := True, requests := requests s @ [QueryCustomers sid]\<rparr> in
             case res of
               Resolved \<Rightarrow>
                 s1\<lparr>customers :=
                       sortCustomers localeCompare
                         (map withId (filter (\<lambda>doc. shopId (snd doc) = sid) (customersDb s1))),
                     loading := False\<rparr>
             | Rejected msg \<Rightarrow>
                 s1\<lparr>console := console s1 @ [''Error fetching customers:''],
                     error := ''Failed to load customers'',
                     loading := False\<rparr>))"

text \<open>\<^verbatim>\<open>fetchLoans\<close>, lines 69-83.\<close>

definition fetchLoans :: "string option \<Rightarrow> outcome \<Rightarrow> 'v state \<Rightarrow> 'v state" where
  "fetchLoans activeShopId res s =
     (case activeShopId of
        None \<Rightarrow> s
      | Some sid \<Rightarrow>
          if sid = [] then s
          else
            (let s1 = s\<lparr>loansLoading := True, requests := requests s @ [QueryLoans sid]\<rparr> in
             case res of
               Resolved \<Rightarrow>
                 s1\<lparr>loans := filter (\<lambda>l. loanShopId l = sid) (loansDb s1),
                     loansLoading := False\<rparr>
             | Rejected msg \<Rightarrow>
                 s1\<lparr>console := console s1 @ [''Error fetching customer loans:''],
                     loansLoading := False\<rparr>))"

subsection \<open>Writing the customers collection\<close>

text \<open>The three writing calls of the store. \<^verbatim>\<open>updateDoc\<close> sets the given fields of an existing
  document and rejects when there is none; \<^verbatim>\<open>addDoc\<close> stores the data under the identifier
  the store generates; \<^verbatim>\<open>deleteDoc\<close> removes the document, if any.\<close>

definition updateDoc ::
  "string \<Rightarrow> customerData \<Rightarrow> outcome \<Rightarrow> (string \<times> customerData) list
     \<Rightarrow> string + (string \<times> customerData) list" where
  "updateDoc i d res db =
     (case res of
        Rejected msg \<Rightarrow> Inl msg
      | Resolved \<Rightarrow>
          if i \<in> set (map fst db)
          then Inr (map (\<lambda>doc. if fst doc = i then (i, d) else doc) db)
          else Inl ''No document to update'')"

definition addDoc ::
  "string \<Rightarrow> customerData \<Rightarrow> outcome \<Rightarrow> (string \<times> customerData) list
     \<Rightarrow> string + (string \<times> customerData) list" where
  "addDoc newId d res db =
     (case res of Rejected msg \<Rightarrow> Inl msg | Resolved \<Rightarrow> Inr (db @ [(newId, d)]))"

definition deleteDoc ::
  "string \<Rightarrow> outcome \<Rightarrow> (string \<times> customerData) list
     \<Rightarrow> string + (string \<times> customerData) list" where
  "deleteDoc i res db =
     (case res of Rejected msg \<Rightarrow> Inl msg | Resolved \<Rightarrow> Inr (filter (\<lambda>doc. fst doc \<noteq> i) db))"

text \<open>Lines 111-116: the document built by \<^verbatim>\<open>handleSubmit\<close>. \<open>createdNow\<close> and
  \<open>updatedNow\<close> are what \<^verbatim>\<open>new Date()\<close> returns on lines 114 and 115.\<close>

definition buildCustomerData ::
  "formData_t \<Rightarrow> string \<Rightarrow> customer option \<Rightarrow> timestamp \<Rightarrow> timestamp \<Rightarrow> customerData" where
  "buildCustomerData f sid editing createdNow updatedNow =
     \<lparr>shopId = sid,
      name = Some (form_name f), phone = Some (form_phone f), email = Some (form_email f),
      address = Some (form_address f), city = Some (form_city f),
      notes_field = Some (form_notes f),
      createdAt = (case editing of Some c \<Rightarrow> createdAt c | None \<Rightarrow> createdNow),
      updatedAt = updatedNow\<rparr>"

definition resetForm :: "'v state \<Rightarrow> 'v state" where
  "resetForm s = s\<lparr>formData := emptyForm, editingCustomer := None\<rparr>"

text \<open>Lines 127-130, after a successful save; the timer that clears the success message is
  the later event \<open>successTimeout\<close>.\<close>

definition afterSave ::
  "(string \<Rightarrow> string \<Rightarrow> int) \<Rightarrow> string option \<Rightarrow> outcome \<Rightarrow> 'v state \<Rightarrow> 'v state" where
  "afterSave localeCompare activeShopId fetchRes s =
     fetchCustomers localeCompare activeShopId fetchRes (resetForm (s\<lparr>showModal := False\<rparr>))"

definition saveFailed :: "string \<Rightarrow> 'v state \<Rightarrow> 'v state" where
  "saveFailed msg s =
     s\<lparr>console := console s @ [''Error saving customer:''],
       error := ''Failed to save customer: '' @ msg\<rparr>"

text \<open>\<^verbatim>\<open>handleSubmit\<close>, lines 95-135. \<open>newId\<close> is the identifier the store generates for an
  added document; \<open>writeRes\<close> and \<open>fetchRes\<close> are how the write and the reload end.\<close>

definition handleSubmit ::
  "(string \<Rightarrow> string \<Rightarrow> int) \<Rightarrow> string option \<Rightarrow> timestamp \<Rightarrow> timestamp \<Rightarrow> string
     \<Rightarrow> outcome \<Rightarrow> outcome \<Rightarrow> 'v state \<Rightarrow> 'v state" where
  "handleSubmit localeCompare activeShopId createdNow updatedNow newId writeRes fetchRes s =
     (let s0 = s\<lparr>error := [], success := []\<rparr> in
      if trim (form_name (formData s)) = [] then s0\<lparr>error := ''Customer name is required''\<rparr>
      else
        (case activeShopId of
           None \<Rightarrow> s0\<lparr>error := ''Shop ID is missing''\<rparr>
         | Some sid \<Rightarrow>
             if sid = [] then s0\<lparr>error := ''Shop ID is missing''\<rparr>
             else
               (let data = buildCustomerData (formData s) sid (editingCustomer s)
                             createdNow updatedNow in
                case editingCustomer s of
                  Some c \<Rightarrow>
                    (let s1 = s0\<lparr>requests := requests s0 @ [UpdateCustomer (customerId c) data]\<rparr> in
                     case updateDoc (customerId c) data writeRes (customersDb s1) of
                       Inr db \<Rightarrow>
                         afterSave localeCompare activeShopId fetchRes
                           (s1\<lparr>customersDb := db, success := ''Customer updated successfully''\<rparr>)
                     | Inl msg \<Rightarrow> saveFailed msg s1)
                | None \<Rightarrow>
                    (let s1 = s0\<lparr>requests := requests s0 @ [AddCustomer data]\<rparr> in
                     case addDoc newId data writeRes (customersDb s1) of
                       Inr db \<Rightarrow>
                         afterSave localeCompare activeShopId fetchRes
                           (s1\<lparr>customersDb := db, success := ''Customer added successfully''\<rparr>)
                     | Inl msg \<Rightarrow> saveFailed msg s1))))"

text \<open>\<^verbatim>\<open>handleEdit\<close>, \<^verbatim>\<open>handleDelete\<close> and \<^verbatim>\<open>confirmDelete\<close>, lines 137-169.\<close>

definition handleEdit :: "customer \<Rightarrow> 'v state \<Rightarrow> 'v state" where
  "handleEdit c s =
     s\<lparr>editingCustomer := Some c,
       formData :=
         \<lparr>form_name = orEmpty (name c), form_phone = orEmpty (phone c),
          form_email = orEmpty (email c), form_address = orEmpty (address c),
          form_city = orEmpty (city c), form_notes = orEmpty (notes_field c)\<rparr>,
       showModal := True\<rparr>"


definition confirmDelete ::
  "(string \<Rightarrow> string \<Rightarrow> int) \<Rightarrow> string option \<Rightarrow> outcome \<Rightarrow> outcome \<Rightarrow> 'v state \<Rightarrow> 'v state" where
  "confirmDelete localeCompare activeShopId deleteRes fetchRes s =
     (case customerToDelete s of
        None \<Rightarrow> s
      | Some c \<Rightarrow>
          (let s1 = s\<lparr>requests := requests s @ [DeleteCustomer (customerId c)]\<rparr> in
           case deleteDoc (customerId c) deleteRes (customersDb s1) of
             Inr db \<Rightarrow>
               fetchCustomers localeCompare activeShopId fetchRes
                 (s1\<lparr>customersDb := db, success := ''Customer deleted successfully'',
                     showDeleteModal := False, customerToDelete := None\<rparr>)
           | Inl msg \<Rightarrow>
               s1\<lparr>console := console s1 @ [''Error deleting customer:''],
                   error := ''Failed to delete customer: '' @ msg\<rparr>))"

text \<open>The remaining handlers: lines 87-93, 183-186, 210, 230, 286-291, and the closing of the
  two other dialogs.\<close>

definition handleInputChange :: "field \<Rightarrow> string \<Rightarrow> 'v state \<Rightarrow> 'v state" where
  "handleInputChange fld v s =
     s\<lparr>formData :=
         (case fld of
            NameField \<Rightarrow> (formData s)\<lparr>form_name := v\<rparr>
          | PhoneField \<Rightarrow> (formData s)\<lparr>form_phone := v\<rparr>
          | EmailField \<Rightarrow> (formData s)\<lparr>form_email := v\<rparr>
          | AddressField \<Rightarrow> (formData s)\<lparr>form_address := v\<rparr>
          | CityField \<Rightarrow> (formData s)\<lparr>form_city := v\<rparr>
          | NotesField \<Rightarrow> (formData s)\<lparr>form_notes := v\<rparr>)\<rparr>"








subsection \<open>Sessions of the screen\<close>







subsection \<open>The properties in the specification's words\<close>

text \<open>Two strings are equal under case-insensitive comparison: code unit by code unit they
  differ in case at most.\<close>

definition equalsIgnoreCase :: "string \<Rightarrow> string \<Rightarrow> bool" where
  "equalsIgnoreCase a b = list_all2 (\<lambda>x y. toLowerChar x = toLowerChar y) a b"

text \<open>The positions, in increasing order, of the loans recorded under a customer's name, a
  missing name on either side read as the empty string.\<close>

definition loansOfCustomer :: "'v loan list \<Rightarrow> customer \<Rightarrow> nat list" where
  "loansOfCustomer ls c =
     filter (\<lambda>i. equalsIgnoreCase (orEmpty (customerName (ls ! i))) (orEmpty (name c)))
       [0..<length ls]"

text \<open>What a loan adds to the total: its parsed amount, zero when it does not parse to a
  number.\<close>

definition parsedAmount :: "('v \<Rightarrow> number) \<Rightarrow> 'v loan \<Rightarrow> number" where
  "parsedAmount parseFloat l =
     (if parseFloat (amount l) = NaN then Finite 0 else parseFloat (amount l))"

text \<open>The sum of a list of numbers, as the program forms it: from zero, one after the other.\<close>

fun sumFrom :: "(real \<Rightarrow> number) \<Rightarrow> number \<Rightarrow> number list \<Rightarrow> number" where
  "sumFrom fl acc [] = acc"
| "sumFrom fl acc (x # xs) = sumFrom fl (jsAdd fl acc x) xs"

definition jsSum :: "(real \<Rightarrow> number) \<Rightarrow> number list \<Rightarrow> number" where
  "jsSum fl xs = sumFrom fl (Finite 0) xs"

text \<open>Every addition of a run of finite amounts is exact: no sum on the way is rounded.\<close>

fun addsExactly :: "(real \<Rightarrow> number) \<Rightarrow> real \<Rightarrow> real list \<Rightarrow> bool" where
  "addsExactly fl acc [] = True"
| "addsExactly fl acc (x # xs) = (fl (acc + x) = Finite (acc + x) \<and> addsExactly fl (acc + x) xs)"

text \<open>A comparator is consistent when "not after" is total and transitive.\<close>

definition consistentComparator :: "(string \<Rightarrow> string \<Rightarrow> int) \<Rightarrow> bool" where
  "consistentComparator lc =
     ((\<forall>a b. lc a b \<le> 0 \<or> lc b a \<le> 0) \<and> (\<forall>a b c. lc a b \<le> 0 \<and> lc b c \<le> 0 \<longrightarrow> lc a c \<le> 0))"

text \<open>Non-decreasing order of the lowercased names.\<close>

definition sortedByLowerName :: "(string \<Rightarrow> string \<Rightarrow> int) \<Rightarrow> customer list \<Rightarrow> bool" where
  "sortedByLowerName lc cs =
     sorted_wrt (\<lambda>a b. lc (toLowerCase (orEmpty (name a))) (toLowerCase (orEmpty (name b))) \<le> 0) cs"

text \<open>The match as the specification words it, with the lowercased term looked for in all
  three fields, and its part on the name and the email.\<close>

definition matchesLoweredTerm :: "customer \<Rightarrow> string \<Rightarrow> bool" where
  "matchesLoweredTerm c t =
     ((\<exists>n. name c = Some n \<and> sublist (toLowerCase t) (toLowerCase n)) \<or>
      (\<exists>p. phone c = Some p \<and> sublist (toLowerCase t) p) \<or>
      (\<exists>e. email c = Some e \<and> sublist (toLowerCase t) (toLowerCase e)))"

definition matchesNameOrEmail :: "customer \<Rightarrow> string \<Rightarrow> bool" where
  "matchesNameOrEmail c t =
     ((\<exists>n. name c = Some n \<and> sublist (toLowerCase t) (toLowerCase n)) \<or>
      (\<exists>e. email c = Some e \<and> sublist (toLowerCase t) (toLowerCase e)))"

text \<open>A phone without letters.\<close>

definition phoneUncased :: "customer \<Rightarrow> bool" where
  "phoneUncased c = (case phone c of None \<Rightarrow> True | Some p \<Rightarrow> list_all (\<lambda>ch. \<not> isCased ch) p)"

text \<open>A submission is rejected: an error is set and nothing was asked of the store.\<close>

definition saveRejected :: "'v state \<Rightarrow> 'v state \<Rightarrow> bool" where
  "saveRejected s s' =
     (error s' \<noteq> [] \<and> requests s' = requests s \<and> customersDb s' = customersDb s)"

text \<open>The write a submission issues once it has passed the checks.\<close>

definition writeRequest ::
  "string \<Rightarrow> timestamp \<Rightarrow> timestamp \<Rightarrow> 'v state \<Rightarrow> request" where
  "writeRequest sid createdNow updatedNow s =
     (case editingCustomer s of
        Some c \<Rightarrow>
          UpdateCustomer (customerId c)
            (buildCustomerData (formData s) sid (editingCustomer s) createdNow updatedNow)
      | None \<Rightarrow>
          AddCustomer (buildCustomerData (formData s) sid (editingCustomer s) createdNow updatedNow))"







text \<open>A comparator by code units, to run the model on concrete data.\<close>

fun codeUnitCompare :: "string \<Rightarrow> string \<Rightarrow> int" where
  "codeUnitCompare [] [] = 0"
| "codeUnitCompare [] (y # ys) = - 1"
| "codeUnitCompare (x # xs) [] = 1"
| "codeUnitCompare (x # xs) (y # ys) =
     (if (of_char x :: nat) < of_char y then - 1
      else if (of_char y :: nat) < of_char x then 1
      else codeUnitCompare xs ys)"

subsection \<open>Concrete data\<close>

definition exampleCustomer :: customer where
  "exampleCustomer =
     \<lparr>shopId = ''shop1'', name = Some ''Bob'', phone = Some ''555 ext 2'',
      email = Some ''bob@shop.pk'', address = None, city = None, notes_field = None,
      createdAt = 100, updatedAt = 100, customerId = ''c1''\<rparr>"

definition digitsCustomer :: customer where
  "digitsCustomer =
     \<lparr>shopId = ''shop1'', name = Some ''Bob'', phone = Some ''5551234'',
      email = Some ''bob@shop.pk'', address = None, city = None, notes_field = None,
      createdAt = 100, updatedAt = 100, customerId = ''c2''\<rparr>"

definition blankCustomer :: customer where
  "blankCustomer =
     \<lparr>shopId = ''shop1'', name = None, phone = None, email = None, address = None,
      city = None, notes_field = None, createdAt = 100, updatedAt = 100, customerId = ''c3''\<rparr>"

definition mkLoan :: "string \<Rightarrow> string option \<Rightarrow> string \<Rightarrow> string option \<Rightarrow> string loan" where
  "mkLoan i n a st =
     \<lparr>loanId = i, loanShopId = ''shop1'', customerName = n, amount = a, timestamp = None,
      transactionId = None, receiptId = None, status = st\<rparr>"

definition exampleLoans :: "string loan list" where
  "exampleLoans =
     [mkLoan ''l1'' (Some ''BOB'') ''10.5'' None,
      mkLoan ''l2'' (Some ''Alice'') ''3'' (Some ''paid''),
      mkLoan ''l3'' (Some ''bob'') ''n/a'' (Some [])]"

text \<open>What \<^verbatim>\<open>parseFloat\<close> returns on the three amounts above, and the rounding on the sums
  of these amounts: they are doubles, which rounding leaves as they are.\<close>

definition exampleParse :: "string \<Rightarrow> number" where
  "exampleParse a =
     (if a = ''10.5'' then Finite (21 / 2) else if a = ''3'' then Finite 3 else NaN)"

definition exampleRound :: "real \<Rightarrow> number" where
  "exampleRound x = Finite x"

definition mkData :: "string \<Rightarrow> string \<Rightarrow> string \<Rightarrow> timestamp \<Rightarrow> customerData" where
  "mkData sid n ph t =
     \<lparr>shopId = sid, name = Some n, phone = Some ph, email = None, address = None,
      city = None, notes_field = None, createdAt = t, updatedAt = t\<rparr>"

text \<open>A store with the customers of two shops, and the freshly mounted component on it.\<close>

definition exampleDb :: "(string \<times> customerData) list" where
  "exampleDb =
     [(''d1'', mkData ''shop1'' ''Carol'' ''111'' 10),
      (''d2'', mkData ''shop2'' ''Bob'' ''222'' 20),
      (''d3'', mkData ''shop1'' ''alice'' ''333'' 30)]"

definition exampleState :: "string state" where
  "exampleState = initialState exampleDb exampleLoans"

text \<open>States of the form: a name typed in, two blanks typed in, and Carol picked for editing
  after the list has loaded.\<close>

definition bobForm :: "string state" where
  "bobForm = handleInputChange NameField ''Bob'' exampleState"

definition blankForm :: "string state" where
  "blankForm = handleInputChange NameField ''  '' exampleState"

definition carol :: customer where
  "carol = withId (''d1'', mkData ''shop1'' ''Carol'' ''111'' 10)"

definition editingCarol :: "string state" where
  "editingCarol =
     handleEdit carol (fetchCustomers codeUnitCompare (Some ''shop1'') Resolved exampleState)"





section \<open>Properties\<close>

subsection \<open>Strings\<close>

lemma of_char_less_256: "(of_char c :: nat) < 256"
proof -
  have "(of_char c :: nat) mod 256 = of_char c" by simp
  then show ?thesis by (metis mod_less_divisor zero_less_numeral)
qed

lemma of_char_toLowerChar:
  "(of_char (toLowerChar c) :: nat) =
     (if (65 \<le> (of_char c :: nat) \<and> (of_char c :: nat) \<le> 90) \<or>
         (192 \<le> (of_char c :: nat) \<and> (of_char c :: nat) \<le> 214) \<or>
         (216 \<le> (of_char c :: nat) \<and> (of_char c :: nat) \<le> 222)
      then of_char c + 32 else of_char c)"
  using of_char_less_256 [of c] by (simp add: toLowerChar_def Let_def)

text \<open>Two different code units with the same lowercase are the two cases of one letter.\<close>

lemma shifted_eq_cases:
  fixes m n :: nat
  assumes "(if U m then m + 32 else m) = (if U n then n + 32 else n)" and "m \<noteq> n"
  shows "U m \<or> (U n \<and> m = n + 32)"
  using assms by (cases "U m"; cases "U n") auto

lemma toLowerChar_eq_cased_left:
  assumes "toLowerChar a = toLowerChar b" and "a \<noteq> b"
  shows "isCased a"
proof -
  let ?U = "\<lambda>n::nat. (65 \<le> n \<and> n \<le> 90) \<or> (192 \<le> n \<and> n \<le> 214) \<or> (216 \<le> n \<and> n \<le> 222)"
  have "(of_char (toLowerChar a) :: nat) = of_char (toLowerChar b)"
    using assms(1) by simp
  then have "(if ?U (of_char a) then of_char a + 32 else of_char a) =
             (if ?U (of_char b) then of_char b + 32 else (of_char b :: nat))"
    by (simp only: of_char_toLowerChar)
  moreover have "(of_char a :: nat) \<noteq> of_char b"
    using assms(2) by simp
  ultimately have "?U (of_char a) \<or> (?U (of_char b) \<and> (of_char a :: nat) = of_char b + 32)"
    by (rule shifted_eq_cases)
  then show ?thesis
    unfolding isCased_def Let_def by arith
qed

lemma toLowerChar_eq_cased:
  assumes "toLowerChar a = toLowerChar b" and "a \<noteq> b"
  shows "isCased a \<and> isCased b"
  using assms toLowerChar_eq_cased_left [of a b] toLowerChar_eq_cased_left [of b a] by simp

lemma toLowerCase_eq_cased:
  "toLowerCase t1 = toLowerCase t2 \<Longrightarrow> t1 \<noteq> t2 \<Longrightarrow>
     (\<exists>x \<in> set t1. isCased x) \<and> (\<exists>y \<in> set t2. isCased y)"
proof (induction t1 arbitrary: t2)
  case Nil
  then show ?case by (simp add: toLowerCase_def)
next
  case (Cons a t1)
  then obtain b t2' where t2: "t2 = b # t2'"
    by (cases t2) (auto simp: toLowerCase_def)
  show ?case
  proof (cases "a = b")
    case True
    with Cons t2 show ?thesis by (auto simp: toLowerCase_def)
  next
    case False
    with Cons.prems t2 have "isCased a \<and> isCased b"
      by (intro toLowerChar_eq_cased) (auto simp: toLowerCase_def)
    with t2 show ?thesis by auto
  qed
qed

text \<open>A string without letters holds both of two differently cased terms or neither.\<close>

lemma sublist_uncased:
  assumes "toLowerCase t1 = toLowerCase t2" and "\<forall>ch \<in> set p. \<not> isCased ch"
  shows "sublist t1 p = sublist t2 p"
proof (cases "t1 = t2")
  case True
  then show ?thesis by simp
next
  case False
  with assms(1) obtain x y where "x \<in> set t1" "isCased x" "y \<in> set t2" "isCased y"
    using toLowerCase_eq_cased by blast
  with assms(2) have "\<not> sublist t1 p" and "\<not> sublist t2 p"
    using set_mono_sublist by blast+
  then show ?thesis by simp
qed

lemma equalsIgnoreCase_iff: "equalsIgnoreCase a b \<longleftrightarrow> toLowerCase a = toLowerCase b"
proof -
  have "list_all2 (\<lambda>x y. toLowerChar x = toLowerChar y) a b
        = list_all2 (=) (map toLowerChar a) (map toLowerChar b)"
    by (simp add: list.rel_map)
  then show ?thesis
    by (simp add: equalsIgnoreCase_def toLowerCase_def list.rel_eq)
qed

text \<open>The lowercase of the strings of the concrete data.\<close>

lemma toLowerCase_examples:
  "toLowerCase ''EXT'' = ''ext''" "toLowerCase ''ext'' = ''ext''"
  "toLowerCase ''Bob'' = ''bob''" "toLowerCase ''BOB'' = ''bob''"
  "toLowerCase ''bob'' = ''bob''" "toLowerCase ''Alice'' = ''alice''"
  "toLowerCase ''bob@shop.pk'' = ''bob@shop.pk''" "toLowerCase [] = []"
  by code_simp+

subsection \<open>The loan summary of a customer\<close>

lemma amountOrZero_parsed: "amountOrZero pf l = parsedAmount pf l"
  by (simp add: amountOrZero_def orZero_def parsedAmount_def)

lemma foldl_sumFrom: "foldl (\<lambda>s l. jsAdd fl s (f l)) a xs = sumFrom fl a (map f xs)"
  by (induction xs arbitrary: a) simp_all

text \<open>Filtering a list is picking the positions that pass, in increasing order.\<close>

lemma filter_positions:
  "map ((!) xs) (filter (\<lambda>i. P (xs ! i)) [0..<length xs]) = filter P xs"
proof -
  have "filter P xs = filter P (map ((!) xs) [0..<length xs])"
    by (simp add: map_nth)
  also have "\<dots> = map ((!) xs) (filter (P \<circ> (!) xs) [0..<length xs])"
    by (simp only: filter_map)
  finally show ?thesis
    by (simp add: comp_def)
qed

lemma custLoans_positions: "custLoans ls c = map ((!) ls) (loansOfCustomer ls c)"
  unfolding custLoans_def loansOfCustomer_def equalsIgnoreCase_iff
  by (rule filter_positions [symmetric])

text \<open>Where no addition is rounded the total is the sum of the amounts as real numbers; where
  one is, it is not: 1 added to \<open>10\<^sup>1\<^sup>6\<close> is absorbed, as on the platform.\<close>

lemma sumFrom_exact:
  "addsExactly fl a xs \<Longrightarrow> sumFrom fl (Finite a) (map Finite xs) = Finite (a + sum_list xs)"
  by (induction xs arbitrary: a) (simp_all add: add.assoc)

lemma jsSum_absorbs:
  assumes "fl (10 ^ 16) = Finite (10 ^ 16)" and "fl (10 ^ 16 + 1) = Finite (10 ^ 16)"
    and "fl 0 = Finite 0"
  shows "jsSum fl [Finite (10 ^ 16), Finite 1, Finite (- (10 ^ 16))] = Finite 0"
  using assms by (simp add: jsSum_def)

lemma jsSum_overflows: "jsSum fl [PosInfinity, Finite 1, NegInfinity] = NaN"
  by (simp add: jsSum_def)

text \<open>
  C1. The badge of a customer's row counts exactly the loans whose customer name equals the
  customer's name when case is ignored, a missing name on either side read as the empty
  string, and its total is the sum over those loans of the parsed amount, an amount that
  does not parse to a number adding zero. The sum is the one the program forms: the amounts
  are added as doubles, in the order of the list; it is the sum of the amounts as real
  numbers whenever they are finite and no addition is rounded.
\<close>

theorem loan_summary:
  "loanCount ls c = length (loansOfCustomer ls c) \<and>
   loanTotal fl parseFloat ls c =
     jsSum fl (map (\<lambda>i. parsedAmount parseFloat (ls ! i)) (loansOfCustomer ls c)) \<and>
   (map (\<lambda>i. parsedAmount parseFloat (ls ! i)) (loansOfCustomer ls c) = map Finite rs \<and>
    addsExactly fl 0 rs \<longrightarrow>
      loanTotal fl parseFloat ls c = Finite (sum_list rs))"
proof -
  have count: "loanCount ls c = length (loansOfCustomer ls c)"
    by (simp add: loanCount_def custLoans_positions)
  have "loanTotal fl parseFloat ls c =
      sumFrom fl (Finite 0) (map (parsedAmount parseFloat) (custLoans ls c))"
    by (simp add: loanTotal_def foldl_sumFrom amountOrZero_parsed)
  also have "\<dots> = jsSum fl (map (\<lambda>i. parsedAmount parseFloat (ls ! i)) (loansOfCustomer ls c))"
    by (simp add: jsSum_def custLoans_positions comp_def)
  finally have total: "loanTotal fl parseFloat ls c =
      jsSum fl (map (\<lambda>i. parsedAmount parseFloat (ls ! i)) (loansOfCustomer ls c))" .
  have "loanTotal fl parseFloat ls c = Finite (sum_list rs)"
    if "map (\<lambda>i. parsedAmount parseFloat (ls ! i)) (loansOfCustomer ls c) = map Finite rs"
      and "addsExactly fl 0 rs"
    using that sumFrom_exact [of fl 0 rs] by (simp add: total jsSum_def)
  with count total show ?thesis
    by blast
qed

text \<open>Bob has two loans, the first and the third of the list; the amount of the third is not
  a number.\<close>

lemma exampleLoans_of_Bob: "loansOfCustomer exampleLoans exampleCustomer = [0, 2]"
proof -
  have "[0..<length exampleLoans] = [0, 1, 2]"
    by (simp add: exampleLoans_def upt_rec)
  then show ?thesis
    by (simp add: loansOfCustomer_def equalsIgnoreCase_iff exampleLoans_def exampleCustomer_def
        mkLoan_def orEmpty_def toLowerCase_examples)
qed

theorem loan_summary_witness:
  "loansOfCustomer exampleLoans exampleCustomer = [0, 2] \<and>
   map (\<lambda>i. parsedAmount exampleParse (exampleLoans ! i)) [0, 2] = map Finite [21 / 2, 0] \<and>
   addsExactly exampleRound 0 [21 / 2, 0] \<and>
   loanCount exampleLoans exampleCustomer = 2 \<and>
   loanTotal exampleRound exampleParse exampleLoans exampleCustomer = Finite (21 / 2)"
proof -
  have m: "map (\<lambda>i. parsedAmount exampleParse (exampleLoans ! i)) [0, 2] = map Finite [21 / 2, 0]"
    by (simp add: parsedAmount_def exampleParse_def exampleLoans_def mkLoan_def)
  have a: "addsExactly exampleRound 0 [21 / 2, 0]"
    by (simp add: exampleRound_def)
  from m a
    loan_summary [of exampleLoans exampleCustomer exampleRound exampleParse "[21 / 2, 0]"]
  have "loanCount exampleLoans exampleCustomer = length [0 :: nat, 2]"
    and "loanTotal exampleRound exampleParse exampleLoans exampleCustomer =
           Finite (sum_list [21 / 2, 0])"
    unfolding exampleLoans_of_Bob by blast+
  with m a show ?thesis
    by (simp add: exampleLoans_of_Bob)
qed

subsection \<open>The loan history\<close>

text \<open>
  C8. In the loan history a record whose status is absent or empty is shown as
  "outstanding"; any other stored status is shown unchanged.
\<close>

theorem statusShown_default:
  "(status l = None \<or> status l = Some [] \<longrightarrow> statusShown l = ''outstanding'') \<and>
   (\<forall>st. status l = Some st \<and> st \<noteq> [] \<longrightarrow> statusShown l = st)"
  by (auto simp: statusShown_def)

theorem statusShown_default_witness:
  "map statusShown exampleLoans = [''outstanding'', ''paid'', ''outstanding'']"
proof -
  have "statusShown (mkLoan ''l1'' (Some ''BOB'') ''10.5'' None) = ''outstanding''"
    using statusShown_default [of "mkLoan ''l1'' (Some ''BOB'') ''10.5'' None"]
    by (simp add: mkLoan_def)
  moreover have "statusShown (mkLoan ''l2'' (Some ''Alice'') ''3'' (Some ''paid'')) = ''paid''"
    using statusShown_default [of "mkLoan ''l2'' (Some ''Alice'') ''3'' (Some ''paid'')"]
    by (simp add: mkLoan_def)
  moreover have "statusShown (mkLoan ''l3'' (Some ''bob'') ''n/a'' (Some [])) = ''outstanding''"
    using statusShown_default [of "mkLoan ''l3'' (Some ''bob'') ''n/a'' (Some [])"]
    by (simp add: mkLoan_def)
  ultimately show ?thesis by (simp add: exampleLoans_def)
qed

subsection \<open>The search filter\<close>

text \<open>
  C9. A customer whose name, phone and email are all missing passes the filter for no search
  term, the empty one included: the table leaves the customer out while the header total
  counts the customer.
\<close>

theorem missing_fields_never_shown:
  assumes "name c = None" and "phone c = None" and "email c = None"
  shows "\<not> matchesSearch c t \<and>
         filteredCustomers (before @ c # after) t = filteredCustomers (before @ after) t \<and>
         totalCustomers (before @ c # after) = Suc (totalCustomers (before @ after))"
  using assms
  by (simp add: matchesSearch_def nameMatches_def phoneMatches_def emailMatches_def
      filteredCustomers_def totalCustomers_def)

theorem missing_fields_never_shown_witness:
  "name blankCustomer = None \<and> phone blankCustomer = None \<and> email blankCustomer = None \<and>
   filteredCustomers [exampleCustomer, blankCustomer] [] = [exampleCustomer] \<and>
   totalCustomers [exampleCustomer, blankCustomer] = 2"
proof -
  have h: "name blankCustomer = None" "phone blankCustomer = None" "email blankCustomer = None"
    by (simp_all add: blankCustomer_def)
  have "filteredCustomers [exampleCustomer] [] = [exampleCustomer]"
    by (simp add: filteredCustomers_def matchesSearch_def nameMatches_def includes_str_def
        exampleCustomer_def toLowerCase_examples)
  then show ?thesis
    using h missing_fields_never_shown [OF h, of "[]" "[exampleCustomer]" "[]"]
    by (simp add: totalCustomers_def)
qed

text \<open>The matches on the name and on the email do not depend on the case of the term.\<close>

lemma name_email_ignore_case:
  assumes "toLowerCase t1 = toLowerCase t2"
  shows "nameMatches c t1 = nameMatches c t2" and "emailMatches c t1 = emailMatches c t2"
  using assms by (simp_all add: nameMatches_def emailMatches_def split: option.splits)

text \<open>
  C4. The search filter is to ignore the case of the term on the name, the phone and the
  email alike. On the name and the email it does (lines 189 and 191 lowercase both sides);
  on the phone it does not: line 190 looks for the term as typed in the phone as stored. Bob's
  phone is "555 ext 2": the term "ext" shows him, the term "EXT", the same string in another
  case, shows nobody.
\<close>

theorem phone_search_case_sensitive:
  "toLowerCase ''EXT'' = toLowerCase ''ext'' \<and>
   phoneMatches exampleCustomer ''ext'' \<and> \<not> phoneMatches exampleCustomer ''EXT'' \<and>
   filteredCustomers [exampleCustomer] ''ext'' = [exampleCustomer] \<and>
   filteredCustomers [exampleCustomer] ''EXT'' = []"
  by (simp add: toLowerCase_examples filteredCustomers_def matchesSearch_def nameMatches_def
      phoneMatches_def emailMatches_def includes_str_def exampleCustomer_def sublist_code(3))

subsection \<open>The customer list after loading\<close>

lemma set_insertCustomer: "set (insertCustomer lc x ys) = insert x (set ys)"
  by (induction ys) auto

lemma mset_insertCustomer: "mset (insertCustomer lc x ys) = add_mset x (mset ys)"
  by (induction ys) auto

lemma mset_sortCustomers: "mset (sortCustomers lc xs) = mset xs"
  by (induction xs) (simp_all add: sortCustomers_def mset_insertCustomer)


lemma sortedByLowerName_Cons:
  "sortedByLowerName lc (y # ys) =
     ((\<forall>z \<in> set ys. compareByName lc y z \<le> 0) \<and> sortedByLowerName lc ys)"
  by (simp add: sortedByLowerName_def compareByName_def)

lemma compareByName_total:
  "consistentComparator lc \<Longrightarrow> compareByName lc a b \<le> 0 \<or> compareByName lc b a \<le> 0"
  unfolding consistentComparator_def compareByName_def by blast

lemma compareByName_trans:
  "consistentComparator lc \<Longrightarrow> compareByName lc a b \<le> 0 \<Longrightarrow> compareByName lc b c \<le> 0
     \<Longrightarrow> compareByName lc a c \<le> 0"
  unfolding consistentComparator_def compareByName_def by blast

text \<open>Insertion keeps the order, for a consistent comparator.\<close>

lemma sorted_insertCustomer:
  assumes lc: "consistentComparator lc"
  shows "sortedByLowerName lc ys \<Longrightarrow> sortedByLowerName lc (insertCustomer lc x ys)"
proof (induction ys)
  case Nil
  then show ?case by (simp add: sortedByLowerName_def)
next
  case (Cons y ys)
  from Cons.prems have after_y: "\<forall>z \<in> set ys. compareByName lc y z \<le> 0"
    and tail: "sortedByLowerName lc ys"
    by (simp_all add: sortedByLowerName_Cons)
  show ?case
  proof (cases "compareByName lc x y \<le> 0")
    case True
    have "compareByName lc x z \<le> 0" if "z \<in> set ys" for z
      using compareByName_trans [OF lc True] after_y that by blast
    with True Cons.prems show ?thesis
      by (simp add: sortedByLowerName_Cons)
  next
    case False
    with compareByName_total [OF lc, of x y] have "compareByName lc y x \<le> 0"
      by simp
    moreover have "sortedByLowerName lc (insertCustomer lc x ys)"
      using Cons.IH tail by simp
    ultimately show ?thesis
      using False after_y by (simp add: sortedByLowerName_Cons set_insertCustomer)
  qed
qed

lemma sorted_sortCustomers:
  "consistentComparator lc \<Longrightarrow> sortedByLowerName lc (sortCustomers lc xs)"
proof (induction xs)
  case Nil
  then show ?case by (simp add: sortCustomers_def sortedByLowerName_def)
next
  case (Cons x xs)
  then have "sortedByLowerName lc (insertCustomer lc x (sortCustomers lc xs))"
    using sorted_insertCustomer [of lc "sortCustomers lc xs" x] by simp
  then show ?case by (simp add: sortCustomers_def)
qed

lemma codeUnitCompare_Cons_le:
  "codeUnitCompare (x # xs) (y # ys) \<le> 0 \<longleftrightarrow>
     (of_char x :: nat) < of_char y \<or>
     ((of_char x :: nat) = of_char y \<and> codeUnitCompare xs ys \<le> 0)"
  by auto

lemma codeUnitCompare_Nil_le: "codeUnitCompare [] b \<le> 0"
  by (cases b) simp_all

lemma codeUnitCompare_total: "codeUnitCompare a b \<le> 0 \<or> codeUnitCompare b a \<le> 0"
proof (induction a arbitrary: b)
  case Nil
  then show ?case by (simp add: codeUnitCompare_Nil_le)
next
  case (Cons x xs)
  show ?case
  proof (cases b)
    case Nil
    then show ?thesis by (simp add: codeUnitCompare_Nil_le)
  next
    case (Cons y ys)
    with Cons.IH [of ys] show ?thesis
      unfolding Cons codeUnitCompare_Cons_le by linarith
  qed
qed

lemma codeUnitCompare_trans:
  "codeUnitCompare a b \<le> 0 \<Longrightarrow> codeUnitCompare b c \<le> 0 \<Longrightarrow> codeUnitCompare a c \<le> 0"
proof (induction a arbitrary: b c)
  case Nil
  then show ?case by (simp add: codeUnitCompare_Nil_le)
next
  case (Cons x xs)
  from Cons.prems(1) obtain y ys where b: "b = y # ys"
    by (cases b) simp_all
  from Cons.prems(2) b obtain z zs where c: "c = z # zs"
    by (cases c) simp_all
  from Cons.prems have
    xy: "(of_char x :: nat) < of_char y \<or>
         ((of_char x :: nat) = of_char y \<and> codeUnitCompare xs ys \<le> 0)" and
    yz: "(of_char y :: nat) < of_char z \<or>
         ((of_char y :: nat) = of_char z \<and> codeUnitCompare ys zs \<le> 0)"
    unfolding b c codeUnitCompare_Cons_le by blast+
  have "(of_char x :: nat) < of_char z \<or>
        ((of_char x :: nat) = of_char z \<and> codeUnitCompare xs zs \<le> 0)"
    using xy yz Cons.IH [of ys zs] by linarith
  then show ?case
    unfolding c codeUnitCompare_Cons_le .
qed

lemma codeUnitCompare_consistent: "consistentComparator codeUnitCompare"
  unfolding consistentComparator_def
  using codeUnitCompare_total codeUnitCompare_trans by blast

lemma customers_fetchCustomers:
  "\<not> shopMissing (Some sid) \<Longrightarrow>
   customers (fetchCustomers lc (Some sid) Resolved s) =
     sortCustomers lc (map withId (filter (\<lambda>doc. shopId (snd doc) = sid) (customersDb s)))"
  by (simp add: fetchCustomers_def shopMissing_def Let_def)

text \<open>Lowercasing twice is lowercasing once; a phone without letters holds the term as typed
  exactly when it holds the lowercased term.\<close>

lemma toLowerChar_idem: "toLowerChar (toLowerChar c) = toLowerChar c"
proof -
  have "(of_char (toLowerChar (toLowerChar c)) :: nat) = of_char (toLowerChar c)"
    unfolding of_char_toLowerChar [of "toLowerChar c"]
    unfolding of_char_toLowerChar [of c]
    by simp
  then show ?thesis
    by simp
qed

lemma toLowerCase_idem: "toLowerCase (toLowerCase t) = toLowerCase t"
  by (simp add: toLowerCase_def toLowerChar_idem)

lemma phoneMatches_lowered:
  assumes "toLowerCase t = t \<or> phoneUncased c"
  shows "phoneMatches c t = (\<exists>p. phone c = Some p \<and> sublist (toLowerCase t) p)"
proof (cases "phone c")
  case None
  then show ?thesis by (simp add: phoneMatches_def)
next
  case (Some p)
  have "sublist t p = sublist (toLowerCase t) p"
  proof (cases "toLowerCase t = t")
    case True
    then show ?thesis by simp
  next
    case False
    with assms Some have "\<forall>ch \<in> set p. \<not> isCased ch"
      by (simp add: phoneUncased_def list_all_iff)
    with sublist_uncased [of t "toLowerCase t" p] show ?thesis
      by (simp add: toLowerCase_idem)
  qed
  with Some show ?thesis
    by (simp add: phoneMatches_def includes_str_def)
qed

lemma matchesSearch_name_or_email:
  "matchesSearch c t = (matchesNameOrEmail c t \<or> phoneMatches c t)"
  by (auto simp: matchesSearch_def matchesNameOrEmail_def nameMatches_def emailMatches_def
      includes_str_def split: option.splits)

text \<open>
  C5, as amended. After a load that succeeds the list held in state is in non-decreasing
  order of the lowercased names (a missing name read as the empty string) under the order of
  \<^verbatim>\<open>localeCompare\<close>, and holds exactly the fetched customers. A customer matches the search
  term whenever the lowercased term is a substring of its lowercased name or of its lowercased
  email. For a term without capital letters, and for a customer whose phone has no letters,
  the customer matches exactly when the lowercased term is a substring of its lowercased
  name, of its phone, or of its lowercased email. Nothing is said of a term with capital
  letters on a phone with letters.
\<close>

theorem customers_sorted_and_matched:
  assumes "consistentComparator lc" and "\<not> shopMissing (Some sid)"
  shows "sortedByLowerName lc (customers (fetchCustomers lc (Some sid) Resolved s)) \<and>
         mset (customers (fetchCustomers lc (Some sid) Resolved s)) =
           mset (map withId (filter (\<lambda>doc. shopId (snd doc) = sid) (customersDb s))) \<and>
         (matchesNameOrEmail c t \<longrightarrow> matchesSearch c t) \<and>
         (toLowerCase t = t \<or> phoneUncased c \<longrightarrow> matchesSearch c t = matchesLoweredTerm c t)"
proof -
  have "matchesSearch c t = matchesLoweredTerm c t" if "toLowerCase t = t \<or> phoneUncased c"
    using phoneMatches_lowered [OF that]
    by (auto simp: matchesSearch_name_or_email matchesNameOrEmail_def matchesLoweredTerm_def)
  then show ?thesis
    using assms
    by (simp add: customers_fetchCustomers sorted_sortCustomers mset_sortCustomers
        matchesSearch_name_or_email)
qed

lemma exampleState_sorted:
  "customers (fetchCustomers codeUnitCompare (Some ''shop1'') Resolved exampleState) =
     [withId (''d3'', mkData ''shop1'' ''alice'' ''333'' 30),
      withId (''d1'', mkData ''shop1'' ''Carol'' ''111'' 10)]"
proof -
  have low: "toLowerCase ''Carol'' = ''carol''" "toLowerCase ''alice'' = ''alice''"
    by code_simp+
  have cmp: "codeUnitCompare ''carol'' ''alice'' = 1"
    by simp
  show ?thesis
    by (simp add: customers_fetchCustomers shopMissing_def exampleState_def initialState_def
        exampleDb_def mkData_def withId_def sortCustomers_def compareByName_def orEmpty_def
        low cmp)
qed

lemma digits_uncased: "phoneUncased digitsCustomer"
  unfolding phoneUncased_def digitsCustomer_def by code_simp

theorem customers_sorted_and_matched_witness:
  "consistentComparator codeUnitCompare \<and> \<not> shopMissing (Some ''shop1'') \<and>
   sortedByLowerName codeUnitCompare
     [withId (''d3'', mkData ''shop1'' ''alice'' ''333'' 30),
      withId (''d1'', mkData ''shop1'' ''Carol'' ''111'' 10)] \<and>
   matchesNameOrEmail digitsCustomer ''BOB'' \<and> phoneUncased digitsCustomer \<and>
   matchesSearch digitsCustomer ''BOB'' \<and> matchesLoweredTerm digitsCustomer ''BOB''"
proof -
  have h: "\<not> shopMissing (Some ''shop1'')"
    by (simp add: shopMissing_def)
  have m: "matchesNameOrEmail digitsCustomer ''BOB''"
    by (simp add: matchesNameOrEmail_def digitsCustomer_def toLowerCase_examples)
  from m digits_uncased
    customers_sorted_and_matched [OF codeUnitCompare_consistent h,
      of exampleState digitsCustomer "''BOB''"]
  have "sortedByLowerName codeUnitCompare
          (customers (fetchCustomers codeUnitCompare (Some ''shop1'') Resolved exampleState))"
    and "matchesSearch digitsCustomer ''BOB''" and "matchesLoweredTerm digitsCustomer ''BOB''"
    by blast+
  with h m digits_uncased codeUnitCompare_consistent show ?thesis
    by (simp add: exampleState_sorted)
qed

text \<open>The claim as stated looks for the lowercased term in the phone. Bob's phone is
  "555 ext 2": the term "EXT", lowercased, occurs in it, yet the filter drops Bob.\<close>

theorem lowered_term_counterexample:
  "\<not> matchesSearch exampleCustomer ''EXT'' \<and> matchesLoweredTerm exampleCustomer ''EXT''"
  by (simp add: matchesSearch_def matchesLoweredTerm_def nameMatches_def phoneMatches_def
      emailMatches_def includes_str_def exampleCustomer_def toLowerCase_examples
      sublist_code(3))

subsection \<open>Saving a customer\<close>

lemma trim_examples:
  "trim ''Bob'' = ''Bob''" "trim ''  '' = []" "trim [] = []" "trim ''Carol'' = ''Carol''"
  by code_simp+

text \<open>What a reload asks of the store and what it leaves alone.\<close>

lemma requests_fetchCustomers:
  "requests (fetchCustomers lc A res s) =
     requests s @ (case A of None \<Rightarrow> [] | Some sid \<Rightarrow> if sid = [] then [] else [QueryCustomers sid])"
  by (simp add: fetchCustomers_def Let_def split: option.splits outcome.splits)

lemma customersDb_fetchCustomers: "customersDb (fetchCustomers lc A res s) = customersDb s"
  by (simp add: fetchCustomers_def Let_def split: option.splits outcome.splits)

text \<open>The two early returns of \<^verbatim>\<open>handleSubmit\<close>, lines 100-108.\<close>

lemma handleSubmit_name_empty:
  "trim (form_name (formData s)) = [] \<Longrightarrow>
   handleSubmit lc A t1 t2 newId wr fr s = s\<lparr>error := ''Customer name is required'', success := []\<rparr>"
  by (simp add: handleSubmit_def)

lemma handleSubmit_shop_missing:
  "trim (form_name (formData s)) \<noteq> [] \<Longrightarrow> shopMissing A \<Longrightarrow>
   handleSubmit lc A t1 t2 newId wr fr s = s\<lparr>error := ''Shop ID is missing'', success := []\<rparr>"
  by (simp add: handleSubmit_def shopMissing_def split: option.splits)

lemma error_fetchCustomers:
  "error (fetchCustomers lc A res s) =
     (case A of None \<Rightarrow> error s
      | Some sid \<Rightarrow> if sid = [] then error s
                    else (case res of Resolved \<Rightarrow> error s | Rejected msg \<Rightarrow> ''Failed to load customers''))"
  by (simp add: fetchCustomers_def Let_def split: option.splits outcome.splits)

text \<open>A submission that passes the two checks issues its write, and its error is never the
  one about the name.\<close>

lemma handleSubmit_requests:
  assumes "trim (form_name (formData s)) \<noteq> []" and "sid \<noteq> []"
  shows "\<exists>rest. requests (handleSubmit lc (Some sid) t1 t2 newId wr fr s) =
           requests s @ writeRequest sid t1 t2 s # rest"
  using assms
  by (simp add: handleSubmit_def Let_def afterSave_def saveFailed_def resetForm_def
      requests_fetchCustomers writeRequest_def split: option.splits sum.splits)

lemma handleSubmit_error_not_name:
  assumes "trim (form_name (formData s)) \<noteq> []"
  shows "error (handleSubmit lc A t1 t2 newId wr fr s) \<noteq> ''Customer name is required''"
  using assms
  by (simp add: handleSubmit_def Let_def afterSave_def saveFailed_def resetForm_def
      error_fetchCustomers split: option.splits sum.splits outcome.splits)

lemma handleSubmit_add_db:
  assumes "trim (form_name (formData s)) \<noteq> []" and "sid \<noteq> []" and "editingCustomer s = None"
  shows "customersDb (handleSubmit lc (Some sid) t1 t2 newId Resolved fr s) =
           customersDb s @ [(newId, buildCustomerData (formData s) sid None t1 t2)]"
  using assms
  by (simp add: handleSubmit_def Let_def afterSave_def resetForm_def addDoc_def
      customersDb_fetchCustomers)

lemma handleSubmit_update_db:
  assumes "trim (form_name (formData s)) \<noteq> []" and "sid \<noteq> []"
    and "editingCustomer s = Some c" and "customerId c \<in> set (map fst (customersDb s))"
  shows "customersDb (handleSubmit lc (Some sid) t1 t2 newId Resolved fr s) =
           map (\<lambda>doc. if fst doc = customerId c
                       then (customerId c, buildCustomerData (formData s) sid (Some c) t1 t2)
                       else doc) (customersDb s)"
  using assms
  by (simp add: handleSubmit_def Let_def afterSave_def resetForm_def updateDoc_def
      customersDb_fetchCustomers)


text \<open>
  C6, as amended. A submission is rejected with "Customer name is required" exactly when the
  trimmed name is empty, and then nothing is asked of the store and the customers collection
  is unchanged. With a non-empty name the only other check before the write is that the
  active shop identifier is present: the write is issued whatever the other fields hold.
\<close>

theorem name_is_the_only_validated_field:
  "((error (handleSubmit lc A t1 t2 newId wr fr s) = ''Customer name is required'') =
      (trim (form_name (formData s)) = [])) \<and>
   (trim (form_name (formData s)) = [] \<longrightarrow>
      requests (handleSubmit lc A t1 t2 newId wr fr s) = requests s \<and>
      customersDb (handleSubmit lc A t1 t2 newId wr fr s) = customersDb s) \<and>
   (trim (form_name (formData s)) \<noteq> [] \<and> \<not> shopMissing A \<longrightarrow>
      (\<exists>sid rest. A = Some sid \<and>
         requests (handleSubmit lc A t1 t2 newId wr fr s) =
           requests s @ writeRequest sid t1 t2 s # rest))"
proof (cases "trim (form_name (formData s)) = []")
  case True
  then show ?thesis by (simp add: handleSubmit_name_empty)
next
  case False
  have "\<exists>sid rest. A = Some sid \<and>
          requests (handleSubmit lc A t1 t2 newId wr fr s) =
            requests s @ writeRequest sid t1 t2 s # rest"
    if "\<not> shopMissing A"
  proof -
    from that obtain sid where "A = Some sid" and "sid \<noteq> []"
      by (cases A) (simp_all add: shopMissing_def)
    with False handleSubmit_requests [of s sid lc t1 t2 newId wr fr] show ?thesis
      by simp
  qed
  with False handleSubmit_error_not_name [of s lc A t1 t2 newId wr fr] show ?thesis
    by simp
qed

lemma bobForm_name: "form_name (formData bobForm) = ''Bob''"
  by (simp add: bobForm_def handleInputChange_def)

theorem name_is_the_only_validated_field_witness:
  "trim (form_name (formData bobForm)) \<noteq> [] \<and> \<not> shopMissing (Some ''shop1'') \<and>
   error (handleSubmit codeUnitCompare (Some ''shop1'') 40 41 ''d4'' Resolved Resolved bobForm)
     \<noteq> ''Customer name is required'' \<and>
   (\<exists>rest. requests
       (handleSubmit codeUnitCompare (Some ''shop1'') 40 41 ''d4'' Resolved Resolved bobForm) =
     requests bobForm @ writeRequest ''shop1'' 40 41 bobForm # rest)"
proof -
  have n: "trim (form_name (formData bobForm)) \<noteq> []"
    by (simp add: bobForm_name trim_examples)
  have m: "\<not> shopMissing (Some ''shop1'')"
    by (simp add: shopMissing_def)
  show ?thesis
    using n m
      name_is_the_only_validated_field [of codeUnitCompare "Some ''shop1''" 40 41 "''d4''"
        Resolved Resolved bobForm]
    by simp
qed

text \<open>The claim as stated fails without a shop: the name "Bob" is not empty, yet the
  submission is rejected.\<close>

theorem rejected_with_name_counterexample:
  "trim (form_name (formData bobForm)) \<noteq> [] \<and>
   saveRejected bobForm
     (handleSubmit codeUnitCompare None 40 41 ''d4'' Resolved Resolved bobForm)"
  by (simp add: bobForm_name trim_examples saveRejected_def handleSubmit_shop_missing
      shopMissing_def)

text \<open>
  C10, as amended. A submission made while the active shop identifier is absent issues no
  create and no update and leaves the customers collection unchanged. The name is checked
  first: the error is "Shop ID is missing" when the trimmed name is non-empty, and "Customer
  name is required" otherwise.
\<close>

theorem submit_without_shop:
  assumes "shopMissing A"
  shows "requests (handleSubmit lc A t1 t2 newId wr fr s) = requests s \<and>
         customersDb (handleSubmit lc A t1 t2 newId wr fr s) = customersDb s \<and>
         error (handleSubmit lc A t1 t2 newId wr fr s) =
           (if trim (form_name (formData s)) = [] then ''Customer name is required''
            else ''Shop ID is missing'')"
  using assms
  by (cases "trim (form_name (formData s)) = []")
     (simp_all add: handleSubmit_name_empty handleSubmit_shop_missing)

theorem submit_without_shop_witness:
  "shopMissing None \<and>
   error (handleSubmit codeUnitCompare None 40 41 ''d4'' Resolved Resolved bobForm) =
     ''Shop ID is missing'' \<and>
   requests (handleSubmit codeUnitCompare None 40 41 ''d4'' Resolved Resolved bobForm) = [] \<and>
   customersDb (handleSubmit codeUnitCompare None 40 41 ''d4'' Resolved Resolved bobForm) =
     exampleDb"
proof -
  have h: "shopMissing None"
    by (simp add: shopMissing_def)
  have "requests bobForm = []" and "customersDb bobForm = exampleDb"
    by (simp_all add: bobForm_def handleInputChange_def exampleState_def initialState_def)
  then show ?thesis
    using h submit_without_shop [OF h, of codeUnitCompare 40 41 "''d4''" Resolved Resolved bobForm]
    by (simp add: bobForm_name trim_examples)
qed

lemma blankForm_name: "form_name (formData blankForm) = ''  ''"
  by (simp add: blankForm_def handleInputChange_def)

text \<open>The claim as stated fails on a name of blanks: without a shop the error is the one
  about the name.\<close>

theorem shop_missing_error_counterexample:
  "error (handleSubmit codeUnitCompare None 40 41 ''d4'' Resolved Resolved blankForm) =
     ''Customer name is required'' \<and>
   error (handleSubmit codeUnitCompare None 40 41 ''d4'' Resolved Resolved blankForm) \<noteq>
     ''Shop ID is missing''"
  by (simp add: handleSubmit_name_empty blankForm_name trim_examples)


text \<open>
  C7. A submission that passes the checks writes a document whose update timestamp is the
  current time. On a create its creation timestamp is the current time too; on an update of
  an existing customer it is the creation timestamp of the customer being edited, so the
  stored document keeps it.
\<close>

theorem save_stamps_times:
  assumes "trim (form_name (formData s)) \<noteq> []" and "sid \<noteq> []"
  shows
    "updatedAt (buildCustomerData (formData s) sid (editingCustomer s) t1 t2) = t2 \<and>
     createdAt (buildCustomerData (formData s) sid (editingCustomer s) t1 t2) =
       (case editingCustomer s of None \<Rightarrow> t1 | Some c \<Rightarrow> createdAt c) \<and>
     (\<exists>rest. requests (handleSubmit lc (Some sid) t1 t2 newId wr fr s) =
        requests s @
          (case editingCustomer s of
             None \<Rightarrow> AddCustomer (buildCustomerData (formData s) sid (editingCustomer s) t1 t2)
           | Some c \<Rightarrow>
               UpdateCustomer (customerId c)
                 (buildCustomerData (formData s) sid (editingCustomer s) t1 t2)) # rest) \<and>
     (editingCustomer s = None \<longrightarrow>
        customersDb (handleSubmit lc (Some sid) t1 t2 newId Resolved fr s) =
          customersDb s @ [(newId, buildCustomerData (formData s) sid None t1 t2)]) \<and>
     (\<forall>c. editingCustomer s = Some c \<and> customerId c \<in> set (map fst (customersDb s)) \<longrightarrow>
        customersDb (handleSubmit lc (Some sid) t1 t2 newId Resolved fr s) =
          map (\<lambda>doc. if fst doc = customerId c
                      then (customerId c, buildCustomerData (formData s) sid (Some c) t1 t2)
                      else doc) (customersDb s))"
proof -
  have "\<exists>rest. requests (handleSubmit lc (Some sid) t1 t2 newId wr fr s) =
      requests s @
        (case editingCustomer s of
           None \<Rightarrow> AddCustomer (buildCustomerData (formData s) sid (editingCustomer s) t1 t2)
         | Some c \<Rightarrow>
             UpdateCustomer (customerId c)
               (buildCustomerData (formData s) sid (editingCustomer s) t1 t2)) # rest"
    using handleSubmit_requests [OF assms, of lc t1 t2 newId wr fr]
    by (simp add: writeRequest_def split: option.splits)
  moreover have "updatedAt (buildCustomerData (formData s) sid (editingCustomer s) t1 t2) = t2"
    by (simp add: buildCustomerData_def)
  moreover have "createdAt (buildCustomerData (formData s) sid (editingCustomer s) t1 t2) =
       (case editingCustomer s of None \<Rightarrow> t1 | Some c \<Rightarrow> createdAt c)"
    by (simp add: buildCustomerData_def)
  ultimately show ?thesis
    using handleSubmit_add_db [OF assms] handleSubmit_update_db [OF assms]
    by blast
qed

lemma editingCarol_facts:
  "form_name (formData editingCarol) = ''Carol''"
  "editingCustomer editingCarol = Some carol"
  "customersDb editingCarol = exampleDb"
  "createdAt carol = 10" "customerId carol = ''d1''"
  by (simp_all add: editingCarol_def handleEdit_def carol_def withId_def mkData_def orEmpty_def
      customersDb_fetchCustomers exampleState_def initialState_def)

theorem save_stamps_times_witness:
  "trim (form_name (formData editingCarol)) \<noteq> [] \<and> ''shop1'' \<noteq> [] \<and>
   editingCustomer editingCarol = Some carol \<and> createdAt carol = 10 \<and>
   map (\<lambda>doc. (fst doc, createdAt (snd doc), updatedAt (snd doc)))
     (customersDb
        (handleSubmit codeUnitCompare (Some ''shop1'') 40 41 ''d4'' Resolved Resolved editingCarol)) =
     [(''d1'', 10, 41), (''d2'', 20, 20), (''d3'', 30, 30)]"
proof -
  have n: "trim (form_name (formData editingCarol)) \<noteq> []"
    by (simp add: editingCarol_facts trim_examples)
  have m: "''shop1'' \<noteq> []"
    by simp
  have i: "customerId carol \<in> set (map fst (customersDb editingCarol))"
    by (simp add: editingCarol_facts exampleDb_def)
  show ?thesis
    using n i
      save_stamps_times [OF n m, of 40 41 codeUnitCompare "''d4''" Resolved Resolved]
    by (simp add: editingCarol_facts exampleDb_def mkData_def buildCustomerData_def)
qed

subsection \<open>Failures of the store\<close>

text \<open>What the three other data operations do when the store rejects: the error is logged
  and put in the banner, which can be dismissed.\<close>

lemma fetchCustomers_failure_surfaced:
  assumes "\<not> shopMissing A"
  shows "console (fetchCustomers lc A (Rejected msg) s) = console s @ [''Error fetching customers:''] \<and>
         error (fetchCustomers lc A (Rejected msg) s) = ''Failed to load customers'' \<and>
         bannerShown (fetchCustomers lc A (Rejected msg) s) \<and>
         \<not> bannerShown (dismissError (fetchCustomers lc A (Rejected msg) s))"
  using assms
  by (simp add: fetchCustomers_def shopMissing_def bannerShown_def dismissError_def Let_def
      split: option.splits)

lemma handleSubmit_failure_surfaced:
  assumes "trim (form_name (formData s)) \<noteq> []" and "\<not> shopMissing A"
  shows "console (handleSubmit lc A t1 t2 newId (Rejected msg) fr s) =
           console s @ [''Error saving customer:''] \<and>
         error (handleSubmit lc A t1 t2 newId (Rejected msg) fr s) =
           ''Failed to save customer: '' @ msg \<and>
         bannerShown (handleSubmit lc A t1 t2 newId (Rejected msg) fr s) \<and>
         \<not> bannerShown (dismissError (handleSubmit lc A t1 t2 newId (Rejected msg) fr s))"
  using assms
  by (simp add: handleSubmit_def shopMissing_def bannerShown_def dismissError_def Let_def
      saveFailed_def updateDoc_def addDoc_def split: option.splits)

lemma confirmDelete_failure_surfaced:
  assumes "customerToDelete s = Some c"
  shows "console (confirmDelete lc A (Rejected msg) fr s) =
           console s @ [''Error deleting customer:''] \<and>
         error (confirmDelete lc A (Rejected msg) fr s) = ''Failed to delete customer: '' @ msg \<and>
         bannerShown (confirmDelete lc A (Rejected msg) fr s) \<and>
         \<not> bannerShown (dismissError (confirmDelete lc A (Rejected msg) fr s))"
  using assms
  by (simp add: confirmDelete_def bannerShown_def dismissError_def Let_def deleteDoc_def)

text \<open>
  C3. Every failure of a data operation is caught, logged and shown in the dismissible
  banner. This is so for fetching customers, saving and deleting (the three lemmas above).
  Fetching loans catches and logs the failure but never writes the error message: after a
  failed fetch on the freshly mounted component the log has its line and no banner shows.
\<close>

theorem fetchLoans_failure_not_surfaced:
  "error (fetchLoans A res s) = error s \<and>
   bannerShown (fetchLoans A res s) = bannerShown s \<and>
   console (fetchLoans (Some ''shop1'') (Rejected ''unavailable'') exampleState) =
     [''Error fetching customer loans:''] \<and>
   bannerShown (fetchLoans (Some ''shop1'') (Rejected ''unavailable'') exampleState) = False"
  by (simp add: fetchLoans_def bannerShown_def Let_def exampleState_def initialState_def
      split: option.splits outcome.splits)

subsection \<open>Sessions stay within the active shop\<close>
























































end
